theory Spec2Isabelle
  imports Complex_Main
begin

section \<open>JavaScript numbers\<close>

text \<open>
  A JavaScript \<open>number\<close> is modelled as an exact real, or one of the three special
  values of IEEE arithmetic. The arithmetic follows IEEE 754 on the special values
  (\<open>0 * Infinity\<close>, \<open>Infinity - Infinity\<close>, \<open>0 / 0\<close> and the square root of a
  negative number are \<open>NaN\<close>; every comparison with \<open>NaN\<close> is false). Rounding error
  and overflow of finite values are not modelled, and every zero is the positive zero.
\<close>

datatype number = Fin real | PInf | NInf | NaN

instantiation number :: "{zero, one, plus, minus, uminus, times, inverse, abs, ord}"
begin

definition zero_number :: number where
  "zero_number = Fin 0"

definition one_number :: number where
  "one_number = Fin 1"

fun plus_number :: "number \<Rightarrow> number \<Rightarrow> number" where
  "plus_number NaN b = NaN"
| "plus_number a NaN = NaN"
| "plus_number (Fin a) (Fin b) = Fin (a + b)"
| "plus_number (Fin a) PInf = PInf"
| "plus_number (Fin a) NInf = NInf"
| "plus_number PInf (Fin b) = PInf"
| "plus_number NInf (Fin b) = NInf"
| "plus_number PInf PInf = PInf"
| "plus_number NInf NInf = NInf"
| "plus_number PInf NInf = NaN"
| "plus_number NInf PInf = NaN"

fun uminus_number :: "number \<Rightarrow> number" where
  "uminus_number (Fin a) = Fin (- a)"
| "uminus_number PInf = NInf"
| "uminus_number NInf = PInf"
| "uminus_number NaN = NaN"

definition minus_number :: "number \<Rightarrow> number \<Rightarrow> number" where
  "minus_number a b = a + (- b)"

fun times_number :: "number \<Rightarrow> number \<Rightarrow> number" where
  "times_number NaN b = NaN"
| "times_number a NaN = NaN"
| "times_number (Fin a) (Fin b) = Fin (a * b)"
| "times_number (Fin a) PInf = (if a = 0 then NaN else if 0 < a then PInf else NInf)"
| "times_number (Fin a) NInf = (if a = 0 then NaN else if 0 < a then NInf else PInf)"
| "times_number PInf (Fin b) = (if b = 0 then NaN else if 0 < b then PInf else NInf)"
| "times_number NInf (Fin b) = (if b = 0 then NaN else if 0 < b then NInf else PInf)"
| "times_number PInf PInf = PInf"
| "times_number NInf NInf = PInf"
| "times_number PInf NInf = NInf"
| "times_number NInf PInf = NInf"

fun divide_number :: "number \<Rightarrow> number \<Rightarrow> number" where
  "divide_number NaN b = NaN"
| "divide_number a NaN = NaN"
| "divide_number (Fin a) (Fin b) =
     (if b = 0 then (if a = 0 then NaN else if 0 < a then PInf else NInf)
      else Fin (a / b))"
| "divide_number (Fin a) PInf = Fin 0"
| "divide_number (Fin a) NInf = Fin 0"
| "divide_number PInf (Fin b) = (if 0 \<le> b then PInf else NInf)"
| "divide_number NInf (Fin b) = (if 0 \<le> b then NInf else PInf)"
| "divide_number PInf PInf = NaN"
| "divide_number NInf NInf = NaN"
| "divide_number PInf NInf = NaN"
| "divide_number NInf PInf = NaN"

definition inverse_number :: "number \<Rightarrow> number" where
  "inverse_number a = divide (Fin 1) a"

fun abs_number :: "number \<Rightarrow> number" where
  "abs_number (Fin a) = Fin \<bar>a\<bar>"
| "abs_number PInf = PInf"
| "abs_number NInf = PInf"
| "abs_number NaN = NaN"

fun less_eq_number :: "number \<Rightarrow> number \<Rightarrow> bool" where
  "less_eq_number NaN b = False"
| "less_eq_number a NaN = False"
| "less_eq_number (Fin a) (Fin b) = (a \<le> b)"
| "less_eq_number NInf b = True"
| "less_eq_number a PInf = True"
| "less_eq_number PInf b = False"
| "less_eq_number a NInf = False"

fun less_number :: "number \<Rightarrow> number \<Rightarrow> bool" where
  "less_number NaN b = False"
| "less_number a NaN = False"
| "less_number (Fin a) (Fin b) = (a < b)"
| "less_number PInf b = False"
| "less_number a NInf = False"
| "less_number NInf b = True"
| "less_number a PInf = True"

instance ..

end

text \<open>The functions of the \<open>Math\<close> object that the geometry code calls.\<close>

fun Math_sqrt :: "number \<Rightarrow> number" where
  "Math_sqrt (Fin a) = (if a < 0 then NaN else Fin (sqrt a))"
| "Math_sqrt PInf = PInf"
| "Math_sqrt NInf = NaN"
| "Math_sqrt NaN = NaN"

fun Math_max :: "number \<Rightarrow> number \<Rightarrow> number" where
  "Math_max NaN b = NaN"
| "Math_max a NaN = NaN"
| "Math_max a b = (if a \<le> b then b else a)"

definition Math_abs :: "number \<Rightarrow> number" where
  "Math_abs a = \<bar>a\<bar>"

fun Math_cos :: "number \<Rightarrow> number" where
  "Math_cos (Fin a) = Fin (cos a)"
| "Math_cos a = NaN"

fun Math_sin :: "number \<Rightarrow> number" where
  "Math_sin (Fin a) = Fin (sin a)"
| "Math_sin a = NaN"

fun Math_round :: "number \<Rightarrow> number" where
  "Math_round (Fin a) = Fin (of_int \<lfloor>a + 1 / 2\<rfloor>)"
| "Math_round a = a"

definition Math_PI :: number where
  "Math_PI = Fin pi"

fun isFinite :: "number \<Rightarrow> bool" where
  "isFinite (Fin a) = True"
| "isFinite a = False"

section \<open>Vectors and quaternions of three.js\<close>

record Vector3 =
  v_x :: number
  v_y :: number
  v_z :: number

record Quaternion =
  q_x :: number
  q_y :: number
  q_z :: number
  q_w :: number

definition new_Vector3 :: "number \<Rightarrow> number \<Rightarrow> number \<Rightarrow> Vector3" where
  "new_Vector3 a b c = \<lparr>v_x = a, v_y = b, v_z = c\<rparr>"

text \<open>\<open>new THREE.Quaternion()\<close> is the identity rotation \<open>(0, 0, 0, 1)\<close>.\<close>

definition new_Quaternion :: Quaternion where
  "new_Quaternion = \<lparr>q_x = Fin 0, q_y = Fin 0, q_z = Fin 0, q_w = Fin 1\<rparr>"

definition finiteVector :: "Vector3 \<Rightarrow> bool" where
  "finiteVector p = (isFinite (v_x p) \<and> isFinite (v_y p) \<and> isFinite (v_z p))"

section \<open>Landmarks (src/lib/utils/landmarks.ts)\<close>

record Landmark =
  name :: string
  position :: Vector3
  color :: "string option"

record ProjectedLandmark =
  pl_name :: string
  pl_x :: number
  pl_y :: number
  pl_visible :: bool

record HeadParams =
  radius :: number
  sideCut :: number
  hairlinePos :: number
  browPos :: number
  eyeLinePos :: number
  nosePos :: number
  mouthPos :: number
  eyeWidth :: number
  noseWidth :: number
  mouthWidth :: number
  eyeCurve :: number
  noseCurve :: number
  mouthCurve :: number
  chinPos :: number
  chinWidth :: number
  chinCurve :: number
  chinLineCurve :: number
  jawDrop :: number
  jawWidth :: number

definition getFaceCurveZ :: "number \<Rightarrow> number \<Rightarrow> number \<Rightarrow> number \<Rightarrow> number" where
  "getFaceCurveZ yPos r chinY chinZ =
     (if yPos \<ge> Fin 0 then r
      else let t = (yPos - Fin 0) / (chinY - Fin 0);
               tEased = t * t
           in r + tEased * (chinZ - r))"

definition getPointOnSphereFront :: "number \<Rightarrow> number \<Rightarrow> Vector3" where
  "getPointOnSphereFront r yRatio =
     (let y = yRatio * r;
          rSquared = r * r - y * y;
          z = (if rSquared > Fin 0 then Math_sqrt rSquared else Fin 0)
      in new_Vector3 (Fin 0) y z)"

text \<open>The rim radius as \<open>calculateLandmarks\<close> computes it (line 102): no clamp.\<close>

definition landmarkRimRadius :: "HeadParams \<Rightarrow> number" where
  "landmarkRimRadius params =
     (let cutDistance = sideCut params * radius params
      in Math_sqrt (radius params * radius params - cutDistance * cutDistance))"

definition mkLandmark :: "string \<Rightarrow> Vector3 \<Rightarrow> string \<Rightarrow> Landmark" where
  "mkLandmark n p c = \<lparr>name = n, position = p, color = Some c\<rparr>"

definition calculateLandmarks :: "HeadParams \<Rightarrow> Landmark list" where
  "calculateLandmarks params =
     (let r = radius params;
          chinY = - r - chinPos params * r;
          chinZ = r - chinLineCurve params * r;
          eyeLineY = eyeLinePos params * r;
          noseLineY = nosePos params * r;
          mouthLineY = mouthPos params * r;
          eyeWidthHalf = eyeWidth params * r;
          noseWidthHalf = noseWidth params * r;
          mouthWidthHalf = mouthWidth params * r;
          chinWidthHalf = chinWidth params * r;
          eyeCurveDepth = eyeCurve params * r;
          noseCurveDepth = noseCurve params * r;
          mouthCurveDepth = mouthCurve params * r;
          chinCurveHeight = chinCurve params * r;
          cutDistance = sideCut params * r;
          rimRadius = landmarkRimRadius params;
          jawDropDistance = jawDrop params * r;
          jawWidthDistance = jawWidth params * r
      in [ mkLandmark ''Sphere Center'' (new_Vector3 (Fin 0) (Fin 0) (Fin 0)) ''#ff00ff'',
           mkLandmark ''Crown'' (new_Vector3 (Fin 0) r (Fin 0)) ''#4ecdc4'',
           mkLandmark ''Hairline'' (getPointOnSphereFront r (hairlinePos params)) ''#ffd93d'',
           mkLandmark ''Brow'' (getPointOnSphereFront r (browPos params)) ''#ffd93d'',
           mkLandmark ''Eye Center''
             (new_Vector3 (Fin 0) eyeLineY (getFaceCurveZ eyeLineY r chinY chinZ)) ''#ff6b6b'',
           mkLandmark ''Eye Left''
             (new_Vector3 (- eyeWidthHalf) eyeLineY
                (getFaceCurveZ eyeLineY r chinY chinZ - eyeCurveDepth)) ''#ff6b6b'',
           mkLandmark ''Eye Right''
             (new_Vector3 eyeWidthHalf eyeLineY
                (getFaceCurveZ eyeLineY r chinY chinZ - eyeCurveDepth)) ''#ff6b6b'',
           mkLandmark ''Nose Center''
             (new_Vector3 (Fin 0) noseLineY (getFaceCurveZ noseLineY r chinY chinZ)) ''#ff6b6b'',
           mkLandmark ''Nose Left''
             (new_Vector3 (- noseWidthHalf) noseLineY
                (getFaceCurveZ noseLineY r chinY chinZ - noseCurveDepth)) ''#ff6b6b'',
           mkLandmark ''Nose Right''
             (new_Vector3 noseWidthHalf noseLineY
                (getFaceCurveZ noseLineY r chinY chinZ - noseCurveDepth)) ''#ff6b6b'',
           mkLandmark ''Mouth Center''
             (new_Vector3 (Fin 0) mouthLineY (getFaceCurveZ mouthLineY r chinY chinZ)) ''#ff6b6b'',
           mkLandmark ''Mouth Left''
             (new_Vector3 (- mouthWidthHalf) mouthLineY
                (getFaceCurveZ mouthLineY r chinY chinZ - mouthCurveDepth)) ''#ff6b6b'',
           mkLandmark ''Mouth Right''
             (new_Vector3 mouthWidthHalf mouthLineY
                (getFaceCurveZ mouthLineY r chinY chinZ - mouthCurveDepth)) ''#ff6b6b'',
           mkLandmark ''Chin'' (new_Vector3 (Fin 0) chinY chinZ) ''#45b7d1'',
           mkLandmark ''Chin Left''
             (new_Vector3 (- chinWidthHalf) chinY (chinZ - chinCurveHeight)) ''#45b7d1'',
           mkLandmark ''Chin Right''
             (new_Vector3 chinWidthHalf chinY (chinZ - chinCurveHeight)) ''#45b7d1'',
           mkLandmark ''Jaw Start Left'' (new_Vector3 (- cutDistance) (- rimRadius) (Fin 0)) ''#45b7d1'',
           mkLandmark ''Jaw Start Right'' (new_Vector3 cutDistance (- rimRadius) (Fin 0)) ''#45b7d1'',
           mkLandmark ''Jaw Drop Left''
             (new_Vector3 (- jawWidthDistance) (- rimRadius - jawDropDistance) (Fin 0)) ''#45b7d1'',
           mkLandmark ''Jaw Drop Right''
             (new_Vector3 jawWidthDistance (- rimRadius - jawDropDistance) (Fin 0)) ''#45b7d1'' ])"

text \<open>
  Methods of \<open>THREE.Vector3\<close>. The library is not part of the repository; the
  definitions are the library's formulas. \<open>applyQuaternion\<close> computes
  \<open>v + w t + q \<times> t\<close> with \<open>t = 2 (q \<times> v)\<close>, the rotation of \<open>v\<close> by a unit
  quaternion. The methods update the receiver in place; \<open>clone\<close> copies it first.
\<close>

definition applyQuaternion :: "Vector3 \<Rightarrow> Quaternion \<Rightarrow> Vector3" where
  "applyQuaternion v q =
     (let tx = Fin 2 * (q_y q * v_z v - q_z q * v_y v);
          ty = Fin 2 * (q_z q * v_x v - q_x q * v_z v);
          tz = Fin 2 * (q_x q * v_y v - q_y q * v_x v)
      in new_Vector3
           (v_x v + q_w q * tx + q_y q * tz - q_z q * ty)
           (v_y v + q_w q * ty + q_z q * tx - q_x q * tz)
           (v_z v + q_w q * tz + q_x q * ty - q_y q * tx))"

definition Vector3_add :: "Vector3 \<Rightarrow> Vector3 \<Rightarrow> Vector3" where
  "Vector3_add a b = new_Vector3 (v_x a + v_x b) (v_y a + v_y b) (v_z a + v_z b)"

record Pan =
  pan_x :: number
  pan_y :: number

definition transformLandmarks :: "Landmark list \<Rightarrow> Quaternion \<Rightarrow> Pan \<Rightarrow> Landmark list" where
  "transformLandmarks landmarks rotation pan =
     map (\<lambda>landmark.
            landmark\<lparr>position :=
              Vector3_add (applyQuaternion (position landmark) rotation)
                (new_Vector3 (pan_x pan) (pan_y pan) (Fin 0))\<rparr>)
         landmarks"

definition projectLandmarks :: "Landmark list \<Rightarrow> number \<Rightarrow> number \<Rightarrow> ProjectedLandmark list" where
  "projectLandmarks landmarks canvasWidth canvasHeight =
     map (\<lambda>landmark.
            let pos = position landmark;
                x = canvasWidth / Fin 2 + v_x pos;
                y = canvasHeight / Fin 2 - v_y pos;
                visible = (v_z pos \<ge> Fin 0)
            in \<lparr>pl_name = name landmark, pl_x = Math_round x, pl_y = Math_round y,
                pl_visible = visible\<rparr>)
         landmarks"

text \<open>The defaults of the scene component's properties.\<close>

definition defaultHeadParams :: HeadParams where
  "defaultHeadParams =
     \<lparr>radius = Fin 1, sideCut = Fin (66 / 100), hairlinePos = Fin (33 / 100),
      browPos = Fin 0, eyeLinePos = Fin (- 15 / 100), nosePos = Fin (- 5 / 10),
      mouthPos = Fin (- 75 / 100), eyeWidth = Fin (4 / 10), noseWidth = Fin (25 / 100),
      mouthWidth = Fin (3 / 10), eyeCurve = Fin (2 / 10), noseCurve = Fin (2 / 10),
      mouthCurve = Fin (2 / 10), chinPos = Fin (5 / 10), chinWidth = Fin (3 / 10),
      chinCurve = Fin (2 / 10), chinLineCurve = Fin 0, jawDrop = Fin (3 / 10),
      jawWidth = Fin (68 / 100)\<rparr>"

text \<open>Looking a landmark up by its name, as the display layer does.\<close>

definition landmarkPosition :: "Landmark list \<Rightarrow> string \<Rightarrow> Vector3 option" where
  "landmarkPosition landmarks n = map_option position (find (\<lambda>l. name l = n) landmarks)"

text \<open>The mirror image of a point across the plane \<open>x = 0\<close>.\<close>

definition mirrorX :: "Vector3 \<Rightarrow> Vector3" where
  "mirrorX p = new_Vector3 (- v_x p) (v_y p) (v_z p)"

definition mirrored :: "Landmark list \<Rightarrow> string \<Rightarrow> string \<Rightarrow> bool" where
  "mirrored landmarks l r =
     (case (landmarkPosition landmarks l, landmarkPosition landmarks r) of
        (Some pl, Some pr) \<Rightarrow> pl = mirrorX pr
      | _ \<Rightarrow> False)"

definition noPan :: Pan where
  "noPan = \<lparr>pan_x = Fin 0, pan_y = Fin 0\<rparr>"

text \<open>Parameters with a side cut beyond the sphere: \<open>sideCut = 2\<close>, \<open>radius = 100\<close>.\<close>

definition wideCutParams :: HeadParams where
  "wideCutParams = defaultHeadParams\<lparr>radius := Fin 100, sideCut := Fin 2\<rparr>"

section \<open>Geometry utilities\<close>

text \<open>
  Further methods of \<open>THREE.Vector3\<close>, again the library's formulas. \<open>Vector3_normalize\<close>
  divides by \<open>length() || 1\<close>: a length that is 0 or \<open>NaN\<close> is replaced by 1, and
  \<open>divideScalar s\<close> multiplies by \<open>1 / s\<close>.
\<close>

definition Vector3_length :: "Vector3 \<Rightarrow> number" where
  "Vector3_length v = Math_sqrt (v_x v * v_x v + v_y v * v_y v + v_z v * v_z v)"

definition multiplyScalar :: "Vector3 \<Rightarrow> number \<Rightarrow> Vector3" where
  "multiplyScalar v s = new_Vector3 (v_x v * s) (v_y v * s) (v_z v * s)"

definition divideScalar :: "Vector3 \<Rightarrow> number \<Rightarrow> Vector3" where
  "divideScalar v s = multiplyScalar v (Fin 1 / s)"

definition or_else :: "number \<Rightarrow> number \<Rightarrow> number" where
  "or_else a b = (if a = Fin 0 \<or> a = NaN then b else a)"

definition Vector3_normalize :: "Vector3 \<Rightarrow> Vector3" where
  "Vector3_normalize v = divideScalar v (or_else (Vector3_length v) (Fin 1))"

definition crossVectors :: "Vector3 \<Rightarrow> Vector3 \<Rightarrow> Vector3" where
  "crossVectors a b =
     new_Vector3 (v_y a * v_z b - v_z a * v_y b)
                 (v_z a * v_x b - v_x a * v_z b)
                 (v_x a * v_y b - v_y a * v_x b)"

definition addScaledVector :: "Vector3 \<Rightarrow> Vector3 \<Rightarrow> number \<Rightarrow> Vector3" where
  "addScaledVector t v s =
     new_Vector3 (v_x t + v_x v * s) (v_y t + v_y v * s) (v_z t + v_z v * s)"

definition lerpVectors :: "Vector3 \<Rightarrow> Vector3 \<Rightarrow> number \<Rightarrow> Vector3" where
  "lerpVectors v1 v2 alpha =
     new_Vector3 (v_x v1 + (v_x v2 - v_x v1) * alpha)
                 (v_y v1 + (v_y v2 - v_y v1) * alpha)
                 (v_z v1 + (v_z v2 - v_z v1) * alpha)"

subsection \<open>Circles on a plane\<close>

definition basisFromNormal :: "Vector3 \<Rightarrow> Vector3 \<times> Vector3" where
  "basisFromNormal n =
     (let absX = Math_abs (v_x n);
          absY = Math_abs (v_y n);
          absZ = Math_abs (v_z n);
          axis = (if absX \<le> absY \<and> absX \<le> absZ then new_Vector3 (Fin 1) (Fin 0) (Fin 0)
                  else if absY \<le> absZ then new_Vector3 (Fin 0) (Fin 1) (Fin 0)
                  else new_Vector3 (Fin 0) (Fin 0) (Fin 1));
          u = Vector3_normalize (crossVectors n axis);
          v = crossVectors n u
      in (u, v))"

text \<open>
  The loop of \<open>circleOnPlane\<close> runs \<open>i\<close> from 0 to \<open>segments\<close> inclusive and appends one
  point per round; \<open>segments\<close> is a natural number here.
\<close>

definition circlePoint ::
  "Vector3 \<Rightarrow> Vector3 \<Rightarrow> Vector3 \<Rightarrow> number \<Rightarrow> nat \<Rightarrow> nat \<Rightarrow> Vector3" where
  "circlePoint center u v r segments i =
     (let t = (Fin (real i) / Fin (real segments)) * Math_PI * Fin 2
      in Vector3_add
           (addScaledVector
              (addScaledVector (new_Vector3 (Fin 0) (Fin 0) (Fin 0)) u (Math_cos t * r))
              v (Math_sin t * r))
           center)"

definition circleOnPlane :: "Vector3 \<Rightarrow> Vector3 \<Rightarrow> number \<Rightarrow> nat \<Rightarrow> Vector3 list" where
  "circleOnPlane center normal r segments =
     (let (u, v) = basisFromNormal (Vector3_normalize normal)
      in map (circlePoint center u v r segments) [0 ..< Suc segments])"

subsection \<open>Front and back runs\<close>

text \<open>The result object \<open>{front, back}\<close>.\<close>

record FrontBack =
  frontRuns :: "Vector3 list list"
  backRuns :: "Vector3 list list"

definition isFront :: "Vector3 \<Rightarrow> bool" where
  "isFront point = (v_z point \<ge> Fin 0)"

text \<open>
  The loop of \<open>splitFrontBack\<close>; its state is the two result lists and the two
  current runs.
\<close>

fun splitLoop ::
  "Vector3 list \<Rightarrow> Vector3 list list \<Rightarrow> Vector3 list list \<Rightarrow> Vector3 list \<Rightarrow> Vector3 list
   \<Rightarrow> Vector3 list list \<times> Vector3 list list \<times> Vector3 list \<times> Vector3 list" where
  "splitLoop [] fr bk currentFront currentBack = (fr, bk, currentFront, currentBack)"
| "splitLoop (point # rest) fr bk currentFront currentBack =
     (if isFront point then
        (if length currentBack > 0
         then splitLoop rest fr (bk @ [currentBack]) (currentFront @ [point]) []
         else splitLoop rest fr bk (currentFront @ [point]) currentBack)
      else
        (if length currentFront > 0
         then splitLoop rest (fr @ [currentFront]) bk [] (currentBack @ [point])
         else splitLoop rest fr bk currentFront (currentBack @ [point])))"

definition splitFrontBack :: "Vector3 list \<Rightarrow> FrontBack" where
  "splitFrontBack points =
     (case splitLoop points [] [] [] [] of
        (fr, bk, currentFront, currentBack) \<Rightarrow>
          \<lparr>frontRuns = (if length currentFront > 0 then fr @ [currentFront] else fr),
           backRuns = (if length currentBack > 0 then bk @ [currentBack] else bk)\<rparr>)"

text \<open>
  The reference decomposition for \<open>splitFrontBack\<close>: the maximal runs of points of
  one class, in the order of the input.
\<close>

fun zRuns :: "Vector3 list \<Rightarrow> Vector3 list list" where
  "zRuns [] = []"
| "zRuns (p # ps) =
     (case zRuns ps of
        [] \<Rightarrow> [[p]]
      | r # rs \<Rightarrow> if isFront p = isFront (hd r) then (p # r) # rs else [p] # r # rs)"

text \<open>The two pushes after the loop of \<open>splitFrontBack\<close>.\<close>

definition finishSplit ::
  "Vector3 list list \<times> Vector3 list list \<times> Vector3 list \<times> Vector3 list
   \<Rightarrow> Vector3 list list \<times> Vector3 list list" where
  "finishSplit st = (case st of (fr, bk, cf, cb) \<Rightarrow>
      (if length cf > 0 then fr @ [cf] else fr, if length cb > 0 then bk @ [cb] else bk))"

text \<open>Neighbouring runs are of different classes.\<close>

fun alternating :: "Vector3 list list \<Rightarrow> bool" where
  "alternating [] = True"
| "alternating [r] = True"
| "alternating (r # s # rs) = (isFront (hd r) \<noteq> isFront (hd s) \<and> alternating (s # rs))"

text \<open>A sample polyline: front, back, front, front.\<close>

definition samplePath :: "Vector3 list" where
  "samplePath =
     [new_Vector3 (Fin 0) (Fin 0) (Fin 0), new_Vector3 (Fin 2) (Fin 1) (Fin (- 1)),
      new_Vector3 (Fin 0) (Fin 3) (Fin 0), new_Vector3 (Fin 0) (Fin 3) (Fin 4)]"

subsection \<open>Rim radius\<close>

definition calculateRimRadius :: "number \<Rightarrow> number \<Rightarrow> number" where
  "calculateRimRadius sphereRadius cutDistance =
     (let rSquared = sphereRadius * sphereRadius - cutDistance * cutDistance
      in Math_sqrt (Math_max (Fin 0) rSquared))"

subsection \<open>Clipping to the side band\<close>

definition EPS :: number where
  "EPS = Fin (1 / 1000000)"

definition lerp3 :: "Vector3 \<Rightarrow> Vector3 \<Rightarrow> number \<Rightarrow> Vector3" where
  "lerp3 p0 p1 t = lerpVectors p0 p1 t"

definition intersectX :: "Vector3 \<Rightarrow> Vector3 \<Rightarrow> number \<Rightarrow> Vector3 option" where
  "intersectX p0 p1 boundary =
     (let dx = v_x p1 - v_x p0
      in if Math_abs dx < EPS then None
         else let t = (boundary - v_x p0) / dx
              in if t \<ge> Fin 0 \<and> t \<le> Fin 1 then Some (lerp3 p0 p1 t) else None)"

definition isInside :: "number \<Rightarrow> Vector3 \<Rightarrow> bool" where
  "isInside d p = (Math_abs (v_x p) \<le> d + EPS)"

text \<open>
  One round of the loop of \<open>clipToSideBand\<close> for \<open>i > 0\<close>: the state is the list of
  finished segments and the current segment.
\<close>

definition clipStep ::
  "number \<Rightarrow> Vector3 list list \<times> Vector3 list \<Rightarrow> Vector3 \<Rightarrow> Vector3
   \<Rightarrow> Vector3 list list \<times> Vector3 list" where
  "clipStep d st prevP currP =
     (case st of (segments, currentSegment) \<Rightarrow>
        let currInside = isInside d currP;
            prevInside = isInside d prevP
        in if prevInside \<and> currInside then (segments, currentSegment @ [currP])
           else if prevInside \<and> \<not> currInside then
             (let boundary = (if v_x currP > d then d else - d);
                  closing = (case intersectX prevP currP boundary of
                               Some intersection \<Rightarrow> currentSegment @ [intersection]
                             | None \<Rightarrow> currentSegment)
              in (if length closing \<ge> 2 then segments @ [closing] else segments, []))
           else if \<not> prevInside \<and> currInside then
             (let boundary = (if v_x prevP > d then d else - d)
              in (segments,
                  case intersectX prevP currP boundary of
                    Some intersection \<Rightarrow> [intersection, currP]
                  | None \<Rightarrow> [currP]))
           else if (v_x prevP < - d \<and> v_x currP > d) \<or> (v_x prevP > d \<and> v_x currP < - d) then
             (case (intersectX prevP currP (- d), intersectX prevP currP d) of
                (Some int1, Some int2) \<Rightarrow>
                  (if v_x prevP < v_x currP then (segments @ [[int1, int2]], currentSegment)
                   else (segments @ [[int2, int1]], currentSegment))
              | _ \<Rightarrow> (segments, currentSegment))
           else (segments, currentSegment))"

fun clipLoop ::
  "number \<Rightarrow> Vector3 \<Rightarrow> Vector3 list \<Rightarrow> Vector3 list list \<times> Vector3 list
   \<Rightarrow> Vector3 list list \<times> Vector3 list" where
  "clipLoop d prevP [] st = st"
| "clipLoop d prevP (currP # rest) st = clipLoop d currP rest (clipStep d st prevP currP)"

definition clipToSideBand :: "Vector3 list \<Rightarrow> number \<Rightarrow> Vector3 list list" where
  "clipToSideBand points d =
     (if length points < 2 then []
      else case clipLoop d (hd points) (tl points)
                  ([], if isInside d (hd points) then [hd points] else []) of
             (segments, currentSegment) \<Rightarrow>
               if length currentSegment \<ge> 2 then segments @ [currentSegment] else segments)"

text \<open>
  Two sample polylines: one that enters, leaves and crosses the band \<open>|x| \<le> 2\<close>, and
  one whose only edge leaves the band \<open>|x| \<le> 1\<close> with a horizontal step below \<open>EPS\<close>.
\<close>

definition clipSample :: "Vector3 list" where
  "clipSample =
     [new_Vector3 (Fin (- 3)) (Fin 0) (Fin 0), new_Vector3 (Fin 0) (Fin 1) (Fin 0),
      new_Vector3 (Fin 3) (Fin 0) (Fin 0), new_Vector3 (Fin (- 3)) (Fin 0) (Fin 7)]"

definition nearVerticalSample :: "Vector3 list" where
  "nearVerticalSample =
     [new_Vector3 (Fin (10000005 / 10000000)) (Fin 0) (Fin 0),
      new_Vector3 (Fin (10000012 / 10000000)) (Fin 1) (Fin 0)]"

section \<open>Vector objects in a store\<close>

text \<open>
  \<open>applyQuaternion\<close> and \<open>add\<close> overwrite the vector they are called on. To follow what
  \<open>transformLandmarks\<close> writes, vectors live in a store (an address is an index into
  it) and a landmark object holds the address of its position. \<open>clone\<close> and
  \<open>new THREE.Vector3\<close> allocate a fresh address; the spread \<open>{...landmark, position}\<close>
  builds a new landmark object and leaves the old one as it is.
\<close>

type_synonym store = "Vector3 list"

record LandmarkObj =
  o_name :: string
  o_position :: nat
  o_color :: "string option"

definition deref :: "store \<Rightarrow> LandmarkObj \<Rightarrow> Landmark" where
  "deref st l = \<lparr>name = o_name l, position = st ! o_position l, color = o_color l\<rparr>"

definition store_new :: "store \<Rightarrow> Vector3 \<Rightarrow> nat \<times> store" where
  "store_new st v = (length st, st @ [v])"

definition store_clone :: "store \<Rightarrow> nat \<Rightarrow> nat \<times> store" where
  "store_clone st a = store_new st (st ! a)"

definition store_applyQuaternion :: "store \<Rightarrow> nat \<Rightarrow> Quaternion \<Rightarrow> store" where
  "store_applyQuaternion st a q = st[a := applyQuaternion (st ! a) q]"

definition store_add :: "store \<Rightarrow> nat \<Rightarrow> nat \<Rightarrow> store" where
  "store_add st a b = st[a := Vector3_add (st ! a) (st ! b)]"

definition transformOne :: "store \<Rightarrow> LandmarkObj \<Rightarrow> Quaternion \<Rightarrow> Pan \<Rightarrow> LandmarkObj \<times> store" where
  "transformOne st landmark rotation pan =
     (case store_clone st (o_position landmark) of (c, st1) \<Rightarrow>
        let st2 = store_applyQuaternion st1 c rotation
        in case store_new st2 (new_Vector3 (pan_x pan) (pan_y pan) (Fin 0)) of (t, st3) \<Rightarrow>
             (landmark\<lparr>o_position := c\<rparr>, store_add st3 c t))"

fun transformLandmarksS ::
  "store \<Rightarrow> LandmarkObj list \<Rightarrow> Quaternion \<Rightarrow> Pan \<Rightarrow> LandmarkObj list \<times> store" where
  "transformLandmarksS st [] rotation pan = ([], st)"
| "transformLandmarksS st (landmark # rest) rotation pan =
     (case transformOne st landmark rotation pan of (landmark', st') \<Rightarrow>
        case transformLandmarksS st' rest rotation pan of (rest', st'') \<Rightarrow>
          (landmark' # rest', st''))"

definition projectLandmarksS ::
  "store \<Rightarrow> LandmarkObj list \<Rightarrow> number \<Rightarrow> number \<Rightarrow> ProjectedLandmark list \<times> store" where
  "projectLandmarksS st landmarks canvasWidth canvasHeight =
     (map (\<lambda>landmark.
             let pos = o_position landmark;
                 x = canvasWidth / Fin 2 + v_x (st ! pos);
                 y = canvasHeight / Fin 2 - v_y (st ! pos);
                 visible = (v_z (st ! pos) \<ge> Fin 0)
             in \<lparr>pl_name = o_name landmark, pl_x = Math_round x, pl_y = Math_round y,
                 pl_visible = visible\<rparr>)
          landmarks, st)"

text \<open>A store with two vectors and two landmark objects that point into it.\<close>

definition sampleStore :: store where
  "sampleStore = [new_Vector3 (Fin 0) (Fin 100) (Fin 0), new_Vector3 (Fin 0) (Fin (- 150)) (Fin 100)]"

definition sampleObjs :: "LandmarkObj list" where
  "sampleObjs =
     [\<lparr>o_name = ''Crown'', o_position = 0, o_color = Some ''#4ecdc4''\<rparr>,
      \<lparr>o_name = ''Chin'', o_position = 1, o_color = Some ''#45b7d1''\<rparr>]"

section \<open>The landmark list\<close>

lemma calculateLandmarks_names:
  "map name (calculateLandmarks params) =
     [''Sphere Center'', ''Crown'', ''Hairline'', ''Brow'',
      ''Eye Center'', ''Eye Left'', ''Eye Right'',
      ''Nose Center'', ''Nose Left'', ''Nose Right'',
      ''Mouth Center'', ''Mouth Left'', ''Mouth Right'',
      ''Chin'', ''Chin Left'', ''Chin Right'',
      ''Jaw Start Left'', ''Jaw Start Right'', ''Jaw Drop Left'', ''Jaw Drop Right'']"
  by (simp add: calculateLandmarks_def mkLandmark_def Let_def)

lemma calculateLandmarks_colors:
  "map color (calculateLandmarks params) =
     [Some ''#ff00ff'', Some ''#4ecdc4'', Some ''#ffd93d'', Some ''#ffd93d'',
      Some ''#ff6b6b'', Some ''#ff6b6b'', Some ''#ff6b6b'',
      Some ''#ff6b6b'', Some ''#ff6b6b'', Some ''#ff6b6b'',
      Some ''#ff6b6b'', Some ''#ff6b6b'', Some ''#ff6b6b'',
      Some ''#45b7d1'', Some ''#45b7d1'', Some ''#45b7d1'',
      Some ''#45b7d1'', Some ''#45b7d1'', Some ''#45b7d1'', Some ''#45b7d1'']"
  by (simp add: calculateLandmarks_def mkLandmark_def Let_def)

lemma calculateLandmarks_length: "length (calculateLandmarks params) = 20"
  by (simp add: calculateLandmarks_def Let_def)

lemma calculateLandmarks_distinct: "distinct (map name (calculateLandmarks params))"
  unfolding calculateLandmarks_names by simp

text \<open>
  C1 (as amended). For every \<open>HeadParams\<close>, \<open>calculateLandmarks\<close> returns a fixed,
  ordered list of exactly 20 landmarks (not 21): the names are the twenty strings below
  in this order, they are pairwise distinct, and the colors are the twenty tags below.
\<close>

theorem calculateLandmarks_fixed_list:
  "length (calculateLandmarks params) = 20
   \<and> distinct (map name (calculateLandmarks params))
   \<and> map name (calculateLandmarks params) =
       [''Sphere Center'', ''Crown'', ''Hairline'', ''Brow'',
        ''Eye Center'', ''Eye Left'', ''Eye Right'',
        ''Nose Center'', ''Nose Left'', ''Nose Right'',
        ''Mouth Center'', ''Mouth Left'', ''Mouth Right'',
        ''Chin'', ''Chin Left'', ''Chin Right'',
        ''Jaw Start Left'', ''Jaw Start Right'', ''Jaw Drop Left'', ''Jaw Drop Right'']
   \<and> map color (calculateLandmarks params) =
       [Some ''#ff00ff'', Some ''#4ecdc4'', Some ''#ffd93d'', Some ''#ffd93d'',
        Some ''#ff6b6b'', Some ''#ff6b6b'', Some ''#ff6b6b'',
        Some ''#ff6b6b'', Some ''#ff6b6b'', Some ''#ff6b6b'',
        Some ''#ff6b6b'', Some ''#ff6b6b'', Some ''#ff6b6b'',
        Some ''#45b7d1'', Some ''#45b7d1'', Some ''#45b7d1'',
        Some ''#45b7d1'', Some ''#45b7d1'', Some ''#45b7d1'', Some ''#45b7d1'']"
  using calculateLandmarks_length calculateLandmarks_distinct
        calculateLandmarks_names calculateLandmarks_colors
  by blast

text \<open>
  C1 (as stated) fails: at the default parameters the list has 20 entries, not 21.
\<close>

theorem calculateLandmarks_not_21:
  "length (calculateLandmarks defaultHeadParams) \<noteq> 21"
  by (simp add: calculateLandmarks_length)

section \<open>The rim radius without a clamp\<close>

text \<open>
  For finite inputs with a nonzero radius and \<open>sideCut > 1\<close> the unclamped rim radius
  of \<open>calculateLandmarks\<close> is \<open>NaN\<close>; \<open>calculateRimRadius\<close> is finite on all finite
  inputs.
\<close>

lemma landmarkRimRadius_NaN:
  assumes "radius params = Fin r" and "sideCut params = Fin c" and "r \<noteq> 0" and "1 < c"
  shows "landmarkRimRadius params = NaN"
proof -
  have "1 < c * c" using assms(4) by (simp add: less_1_mult)
  moreover have "0 < r * r" using assms(3) by (auto simp: zero_less_mult_iff)
  ultimately have "r * r * 1 < r * r * (c * c)" by (simp only: mult_less_cancel_left_pos)
  then have "r * r - c * r * (c * r) < 0" by (simp add: algebra_simps)
  then show ?thesis
    using assms(1,2) by (simp add: landmarkRimRadius_def minus_number_def Let_def)
qed

lemma calculateRimRadius_finite:
  "calculateRimRadius (Fin r) (Fin c) = Fin (sqrt (max 0 (r * r - c * c)))"
  by (simp add: calculateRimRadius_def minus_number_def Let_def max_def)

text \<open>
  C2 fails on the code. With \<open>sideCut = 2\<close> and \<open>radius = 100\<close> the radicand is
  \<open>100\<^sup>2 - 200\<^sup>2 < 0\<close>; \<open>calculateLandmarks\<close> takes its square root unclamped, so
  the rim radius and the y-coordinates of the four jaw landmarks are \<open>NaN\<close>, while
  \<open>calculateRimRadius\<close> on the same sphere and cut distance clamps and returns 0.
\<close>

theorem calculateLandmarks_wide_cut_NaN:
  "sideCut wideCutParams > Fin 1
   \<and> landmarkRimRadius wideCutParams = NaN
   \<and> landmarkPosition (calculateLandmarks wideCutParams) ''Jaw Start Left''
       = Some (new_Vector3 (Fin (- 200)) NaN (Fin 0))
   \<and> landmarkPosition (calculateLandmarks wideCutParams) ''Jaw Start Right''
       = Some (new_Vector3 (Fin 200) NaN (Fin 0))
   \<and> landmarkPosition (calculateLandmarks wideCutParams) ''Jaw Drop Left''
       = Some (new_Vector3 (Fin (- 68)) NaN (Fin 0))
   \<and> landmarkPosition (calculateLandmarks wideCutParams) ''Jaw Drop Right''
       = Some (new_Vector3 (Fin 68) NaN (Fin 0))
   \<and> calculateRimRadius (radius wideCutParams) (sideCut wideCutParams * radius wideCutParams)
       = Fin 0"
  by (simp add: wideCutParams_def defaultHeadParams_def landmarkPosition_def
      calculateLandmarks_def mkLandmark_def landmarkRimRadius_def calculateRimRadius_def
      new_Vector3_def minus_number_def Let_def)

section \<open>The crown, end to end\<close>

text \<open>
  C3. The landmark named Crown sits at \<open>(0, R, 0)\<close> for radius \<open>R\<close>, whatever the other
  parameters are. With \<open>R = 100\<close>, the identity rotation, no pan and a canvas of
  1920 by 1080, calculateLandmarks, transformLandmarks and projectLandmarks in
  sequence give the Crown entry \<open>x = 960\<close>, \<open>y = 440\<close>, \<open>visible = true\<close>.
\<close>

theorem crown_end_to_end:
  "landmarkPosition (calculateLandmarks params) ''Crown''
     = Some (new_Vector3 (Fin 0) (radius params) (Fin 0))
   \<and> (radius params = Fin 100 \<longrightarrow>
        find (\<lambda>l. pl_name l = ''Crown'')
          (projectLandmarks
             (transformLandmarks (calculateLandmarks params) new_Quaternion noPan)
             (Fin 1920) (Fin 1080))
        = Some \<lparr>pl_name = ''Crown'', pl_x = Fin 960, pl_y = Fin 440, pl_visible = True\<rparr>)"
  by (simp add: landmarkPosition_def calculateLandmarks_def mkLandmark_def
      projectLandmarks_def transformLandmarks_def applyQuaternion_def Vector3_add_def
      new_Vector3_def new_Quaternion_def noPan_def minus_number_def Let_def)

theorem crown_end_to_end_witness:
  "radius (defaultHeadParams\<lparr>radius := Fin 100\<rparr>) = Fin 100
   \<and> find (\<lambda>l. pl_name l = ''Crown'')
        (projectLandmarks
           (transformLandmarks (calculateLandmarks (defaultHeadParams\<lparr>radius := Fin 100\<rparr>))
              new_Quaternion noPan)
           (Fin 1920) (Fin 1080))
      = Some \<lparr>pl_name = ''Crown'', pl_x = Fin 960, pl_y = Fin 440, pl_visible = True\<rparr>"
  using crown_end_to_end [of "defaultHeadParams\<lparr>radius := Fin 100\<rparr>"]
  by simp

section \<open>Left and right landmarks\<close>

text \<open>
  C9. For every \<open>HeadParams\<close>, each Left landmark of the pairs Eye, Nose, Mouth, Chin,
  Jaw Start and Jaw Drop is the mirror image across \<open>x = 0\<close> of its Right landmark:
  the x-coordinate negated, the same y and z.
\<close>

theorem calculateLandmarks_left_right_mirror:
  "mirrored (calculateLandmarks params) ''Eye Left'' ''Eye Right''
   \<and> mirrored (calculateLandmarks params) ''Nose Left'' ''Nose Right''
   \<and> mirrored (calculateLandmarks params) ''Mouth Left'' ''Mouth Right''
   \<and> mirrored (calculateLandmarks params) ''Chin Left'' ''Chin Right''
   \<and> mirrored (calculateLandmarks params) ''Jaw Start Left'' ''Jaw Start Right''
   \<and> mirrored (calculateLandmarks params) ''Jaw Drop Left'' ''Jaw Drop Right''"
  by (simp add: mirrored_def landmarkPosition_def mirrorX_def calculateLandmarks_def
      mkLandmark_def new_Vector3_def Let_def)

section \<open>Rotation, then pan\<close>

lemma identity_rotation_no_pan:
  "finiteVector p \<Longrightarrow>
   Vector3_add (applyQuaternion p new_Quaternion) (new_Vector3 (Fin 0) (Fin 0) (Fin 0)) = p"
  by (cases p; cases "v_x p"; cases "v_y p"; cases "v_z p")
     (simp_all add: finiteVector_def applyQuaternion_def Vector3_add_def new_Vector3_def
        new_Quaternion_def minus_number_def Let_def)

lemma transformLandmarks_identity:
  "list_all (\<lambda>l. finiteVector (position l)) landmarks \<Longrightarrow>
   transformLandmarks landmarks new_Quaternion noPan = landmarks"
  by (induction landmarks)
     (simp_all add: transformLandmarks_def noPan_def identity_rotation_no_pan)

text \<open>
  A half turn about the z-axis with pan \<open>(10, 20)\<close> takes \<open>(1, 0, 0)\<close> to
  \<open>(-1, 0, 0) + (10, 20, 0)\<close>: the pan is not rotated.
\<close>

lemma transformLandmarks_order_example:
  "map position
     (transformLandmarks [mkLandmark ''P'' (new_Vector3 (Fin 1) (Fin 0) (Fin 0)) ''#ffffff'']
        \<lparr>q_x = Fin 0, q_y = Fin 0, q_z = Fin 1, q_w = Fin 0\<rparr>
        \<lparr>pan_x = Fin 10, pan_y = Fin 20\<rparr>)
   = [new_Vector3 (Fin 9) (Fin 20) (Fin 0)]"
  by (simp add: transformLandmarks_def mkLandmark_def applyQuaternion_def Vector3_add_def
      new_Vector3_def minus_number_def Let_def)

lemma add_zero_number: "(a::number) + Fin 0 = a"
  by (cases a) simp_all

text \<open>
  C8 (as amended). For every landmark list, rotation and pan, the position of each
  output landmark is the input position rotated by the quaternion, with
  \<open>(pan.x, pan.y, 0)\<close> added afterwards, so its z-coordinate is that of the rotated
  point. With the identity rotation and pan \<open>(0, 0)\<close>, a list whose position
  coordinates are all finite numbers is returned unchanged.
\<close>

theorem transformLandmarks_rotate_then_pan:
  "map position (transformLandmarks landmarks rotation pan)
     = map (\<lambda>l. Vector3_add (applyQuaternion (position l) rotation)
                   (new_Vector3 (pan_x pan) (pan_y pan) (Fin 0))) landmarks
   \<and> map (\<lambda>l. v_z (position l)) (transformLandmarks landmarks rotation pan)
     = map (\<lambda>l. v_z (applyQuaternion (position l) rotation)) landmarks
   \<and> (list_all (\<lambda>l. finiteVector (position l)) landmarks \<longrightarrow>
        transformLandmarks landmarks new_Quaternion noPan = landmarks)"
proof (intro conjI impI)
  show "map position (transformLandmarks landmarks rotation pan)
          = map (\<lambda>l. Vector3_add (applyQuaternion (position l) rotation)
                        (new_Vector3 (pan_x pan) (pan_y pan) (Fin 0))) landmarks"
    by (simp add: transformLandmarks_def)
  show "map (\<lambda>l. v_z (position l)) (transformLandmarks landmarks rotation pan)
          = map (\<lambda>l. v_z (applyQuaternion (position l) rotation)) landmarks"
    by (simp add: transformLandmarks_def Vector3_add_def new_Vector3_def add_zero_number)
  assume "list_all (\<lambda>l. finiteVector (position l)) landmarks"
  then show "transformLandmarks landmarks new_Quaternion noPan = landmarks"
    by (rule transformLandmarks_identity)
qed

theorem transformLandmarks_rotate_then_pan_witness:
  "list_all (\<lambda>l. finiteVector (position l))
     [mkLandmark ''Crown'' (new_Vector3 (Fin 0) (Fin 100) (Fin 0)) ''#4ecdc4'']
   \<and> transformLandmarks
        [mkLandmark ''Crown'' (new_Vector3 (Fin 0) (Fin 100) (Fin 0)) ''#4ecdc4'']
        new_Quaternion noPan
      = [mkLandmark ''Crown'' (new_Vector3 (Fin 0) (Fin 100) (Fin 0)) ''#4ecdc4'']"
  using transformLandmarks_rotate_then_pan
    [of "[mkLandmark ''Crown'' (new_Vector3 (Fin 0) (Fin 100) (Fin 0)) ''#4ecdc4'']"]
  by (simp add: finiteVector_def mkLandmark_def new_Vector3_def)

text \<open>
  C8 (as stated) fails where a coordinate is not finite: the identity rotation
  multiplies every coordinate by a zero component of the quaternion, and \<open>0 * NaN\<close> is
  \<open>NaN\<close>. The Jaw Start Left landmark of the wide-cut parameters, at
  \<open>(-200, NaN, 0)\<close>, is moved to \<open>(NaN, NaN, NaN)\<close>.
\<close>

theorem transformLandmarks_identity_moves_NaN:
  "landmarkPosition (calculateLandmarks wideCutParams) ''Jaw Start Left''
     = Some (new_Vector3 (Fin (- 200)) NaN (Fin 0))
   \<and> landmarkPosition
        (transformLandmarks (calculateLandmarks wideCutParams) new_Quaternion noPan)
        ''Jaw Start Left''
     = Some (new_Vector3 NaN NaN NaN)
   \<and> transformLandmarks (calculateLandmarks wideCutParams) new_Quaternion noPan
     \<noteq> calculateLandmarks wideCutParams"
  by (simp add: wideCutParams_def defaultHeadParams_def landmarkPosition_def
      calculateLandmarks_def mkLandmark_def landmarkRimRadius_def transformLandmarks_def
      applyQuaternion_def Vector3_add_def new_Vector3_def new_Quaternion_def noPan_def
      minus_number_def Let_def)

section \<open>Front and back runs\<close>

lemma zRuns_concat: "concat (zRuns ps) = ps"
  by (induction ps) (auto split: list.splits)

lemma zRuns_nonempty: "r \<in> set (zRuns ps) \<Longrightarrow> r \<noteq> []"
  by (induction ps arbitrary: r) (auto split: list.splits if_splits)

lemma zRuns_homogeneous:
  "r \<in> set (zRuns ps) \<Longrightarrow> p \<in> set r \<Longrightarrow> isFront p = isFront (hd r)"
proof (induction ps arbitrary: r p)
  case Nil
  then show ?case by simp
next
  case (Cons a ps)
  show ?case
  proof (cases "zRuns ps")
    case Nil
    with Cons.prems show ?thesis by simp
  next
    case (Cons r0 rs)
    have r0: "\<And>q. q \<in> set r0 \<Longrightarrow> isFront q = isFront (hd r0)"
      using Cons.IH [of r0] Cons by simp
    have rs: "\<And>r' q. r' \<in> set rs \<Longrightarrow> q \<in> set r' \<Longrightarrow> isFront q = isFront (hd r')"
      using Cons.IH Cons by simp
    show ?thesis
    proof (cases "isFront a = isFront (hd r0)")
      case True
      with Cons Cons.prems r0 rs show ?thesis by auto
    next
      case False
      with Cons Cons.prems r0 rs show ?thesis by auto
    qed
  qed
qed

lemma zRuns_Cons_hd: "\<exists>r rs. zRuns (p # ps) = r # rs \<and> hd r = p"
  by (auto split: list.splits)

lemma zRuns_single_run:
  "c \<noteq> [] \<Longrightarrow> \<forall>x\<in>set c. isFront x = k \<Longrightarrow> zRuns c = [c]"
proof (induction c)
  case Nil
  then show ?case by simp
next
  case (Cons x c)
  show ?case
  proof (cases c)
    case Nil
    then show ?thesis by simp
  next
    case (Cons y ys)
    with Cons.IH Cons.prems have "zRuns c = [c]" by simp
    with Cons.prems Cons show ?thesis by simp
  qed
qed

lemma zRuns_append_other:
  "c \<noteq> [] \<Longrightarrow> \<forall>x\<in>set c. isFront x = k \<Longrightarrow> isFront p \<noteq> k \<Longrightarrow>
   zRuns (c @ p # rest) = c # zRuns (p # rest)"
proof (induction c)
  case Nil
  then show ?case by simp
next
  case (Cons x c)
  obtain r rs where rr: "zRuns (p # rest) = r # rs" "hd r = p"
    using zRuns_Cons_hd by blast
  show ?case
  proof (cases c)
    case Nil
    with Cons.prems rr show ?thesis by simp
  next
    case (Cons y ys)
    with Cons.IH Cons.prems have "zRuns (c @ p # rest) = c # zRuns (p # rest)" by simp
    with Cons.prems Cons show ?thesis by simp
  qed
qed

lemma splitLoop_runs:
  "cf = [] \<or> cb = [] \<Longrightarrow> \<forall>x\<in>set cf. isFront x \<Longrightarrow> \<forall>x\<in>set cb. \<not> isFront x \<Longrightarrow>
   finishSplit (splitLoop ps fr bk cf cb)
     = (fr @ filter (\<lambda>r. isFront (hd r)) (zRuns (cf @ cb @ ps)),
        bk @ filter (\<lambda>r. \<not> isFront (hd r)) (zRuns (cf @ cb @ ps)))"
proof (induction ps arbitrary: fr bk cf cb)
  case Nil
  show ?case
  proof (cases "cf = []")
    case True
    show ?thesis
    proof (cases "cb = []")
      case True
      with \<open>cf = []\<close> show ?thesis by (simp add: finishSplit_def)
    next
      case False
      with Nil.prems have "zRuns cb = [cb]" by (intro zRuns_single_run[where k=False]) auto
      moreover from False Nil.prems have "\<not> isFront (hd cb)" by (cases cb) auto
      ultimately show ?thesis using \<open>cf = []\<close> False by (simp add: finishSplit_def)
    qed
  next
    case False
    with Nil.prems have cb: "cb = []" by simp
    from False Nil.prems have "zRuns cf = [cf]" by (intro zRuns_single_run[where k=True]) auto
    moreover from False Nil.prems have "isFront (hd cf)" by (cases cf) auto
    ultimately show ?thesis using cb False by (simp add: finishSplit_def)
  qed
next
  case (Cons p ps)
  show ?case
  proof (cases "isFront p")
    case True
    show ?thesis
    proof (cases "cb = []")
      case True
      have "finishSplit (splitLoop ps fr bk (cf @ [p]) [])
          = (fr @ filter (\<lambda>r. isFront (hd r)) (zRuns ((cf @ [p]) @ [] @ ps)),
             bk @ filter (\<lambda>r. \<not> isFront (hd r)) (zRuns ((cf @ [p]) @ [] @ ps)))"
        using Cons.prems \<open>isFront p\<close> by (intro Cons.IH) auto
      with True \<open>isFront p\<close> show ?thesis by simp
    next
      case False
      with Cons.prems have cf: "cf = []" by simp
      have ih: "finishSplit (splitLoop ps fr (bk @ [cb]) ([] @ [p]) [])
          = (fr @ filter (\<lambda>r. isFront (hd r)) (zRuns (([] @ [p]) @ [] @ ps)),
             (bk @ [cb]) @ filter (\<lambda>r. \<not> isFront (hd r)) (zRuns (([] @ [p]) @ [] @ ps)))"
        using \<open>isFront p\<close> by (intro Cons.IH) auto
      have z: "zRuns (cb @ p # ps) = cb # zRuns (p # ps)"
        using False Cons.prems \<open>isFront p\<close> by (intro zRuns_append_other[where k=False]) auto
      from False Cons.prems have "\<not> isFront (hd cb)" by (cases cb) auto
      with ih z cf False \<open>isFront p\<close> show ?thesis by simp
    qed
  next
    case False
    note nf = False
    show ?thesis
    proof (cases "cf = []")
      case True
      have "finishSplit (splitLoop ps fr bk [] (cb @ [p]))
          = (fr @ filter (\<lambda>r. isFront (hd r)) (zRuns ([] @ (cb @ [p]) @ ps)),
             bk @ filter (\<lambda>r. \<not> isFront (hd r)) (zRuns ([] @ (cb @ [p]) @ ps)))"
        using Cons.prems nf by (intro Cons.IH) auto
      with True nf show ?thesis by simp
    next
      case False
      with Cons.prems have cb: "cb = []" by simp
      have ih: "finishSplit (splitLoop ps (fr @ [cf]) bk [] ([] @ [p]))
          = ((fr @ [cf]) @ filter (\<lambda>r. isFront (hd r)) (zRuns ([] @ ([] @ [p]) @ ps)),
             bk @ filter (\<lambda>r. \<not> isFront (hd r)) (zRuns ([] @ ([] @ [p]) @ ps)))"
        using nf by (intro Cons.IH) auto
      have z: "zRuns (cf @ p # ps) = cf # zRuns (p # ps)"
        using False Cons.prems nf by (intro zRuns_append_other[where k=True]) auto
      from False Cons.prems have "isFront (hd cf)" by (cases cf) auto
      with ih z cb False nf show ?thesis by simp
    qed
  qed
qed

lemma splitFrontBack_zRuns:
  "frontRuns (splitFrontBack points) = filter (\<lambda>r. isFront (hd r)) (zRuns points)
   \<and> backRuns (splitFrontBack points) = filter (\<lambda>r. \<not> isFront (hd r)) (zRuns points)"
  using splitLoop_runs[of "[]" "[]" points "[]" "[]"]
  by (auto simp: splitFrontBack_def finishSplit_def split: prod.splits)

lemma zRuns_alternating: "alternating (zRuns ps)"
proof (induction ps)
  case Nil
  then show ?case by simp
next
  case (Cons a ps)
  show ?case
  proof (cases "zRuns ps")
    case Nil
    then show ?thesis by simp
  next
    case (Cons r rs)
    then have nonempty: "r \<noteq> []" using zRuns_nonempty [of r ps] by simp
    show ?thesis
    proof (cases "isFront a = isFront (hd r)")
      case True
      from Cons.IH Cons have "alternating (r # rs)" by simp
      then have "alternating ((a # r) # rs)" using True by (cases rs) auto
      with Cons True show ?thesis by simp
    next
      case False
      with Cons.IH Cons show ?thesis by simp
    qed
  qed
qed

lemma filter_homogeneous_run:
  "\<forall>p\<in>set r. isFront p = k \<Longrightarrow> filter isFront r = (if k then r else [])"
  by (induction r) auto

lemma concat_filter_front:
  "\<forall>r\<in>set rs. \<forall>p\<in>set r. isFront p = isFront (hd r) \<Longrightarrow>
   concat (filter (\<lambda>r. isFront (hd r)) rs) = filter isFront (concat rs)"
proof (induction rs)
  case Nil
  then show ?case by simp
next
  case (Cons r rs)
  then have "filter isFront r = (if isFront (hd r) then r else [])"
    by (intro filter_homogeneous_run) simp
  with Cons show ?case by simp
qed

lemma filter_homogeneous_run_back:
  "\<forall>p\<in>set r. isFront p = k \<Longrightarrow> filter (\<lambda>p. \<not> isFront p) r = (if k then [] else r)"
  by (induction r) auto

lemma concat_filter_back:
  "\<forall>r\<in>set rs. \<forall>p\<in>set r. isFront p = isFront (hd r) \<Longrightarrow>
   concat (filter (\<lambda>r. \<not> isFront (hd r)) rs) = filter (\<lambda>p. \<not> isFront p) (concat rs)"
proof (induction rs)
  case Nil
  then show ?case by simp
next
  case (Cons r rs)
  then have "filter (\<lambda>p. \<not> isFront p) r = (if isFront (hd r) then [] else r)"
    by (intro filter_homogeneous_run_back) simp
  with Cons show ?case by simp
qed

lemma less_zero_not_front: "v_z p < Fin 0 \<Longrightarrow> \<not> isFront p"
  by (cases "v_z p") (simp_all add: isFront_def)

lemma splitFrontBack_concat_front:
  "concat (frontRuns (splitFrontBack points)) = filter isFront points"
  using concat_filter_front [of "zRuns points"] zRuns_homogeneous [of _ points]
  by (simp add: splitFrontBack_zRuns zRuns_concat)

lemma splitFrontBack_concat_back:
  "concat (backRuns (splitFrontBack points)) = filter (\<lambda>p. \<not> isFront p) points"
  using concat_filter_back [of "zRuns points"] zRuns_homogeneous [of _ points]
  by (simp add: splitFrontBack_zRuns zRuns_concat)

lemma splitFrontBack_count:
  "length (concat (frontRuns (splitFrontBack points)))
     + length (concat (backRuns (splitFrontBack points))) = length points"
  by (simp add: splitFrontBack_concat_front splitFrontBack_concat_back sum_length_filter_compl)

text \<open>
  C4. For every point sequence, the front runs and the back runs returned by
  \<open>splitFrontBack\<close> are the front-class and the back-class members of one list of
  runs, \<open>zRuns points\<close>, kept in its order; the concatenation of that list is the input,
  and neighbouring runs in it are of different classes. Every point of a front run has
  \<open>z \<ge> 0\<close>, every point of a back run does not; every input point with \<open>z \<ge> 0\<close> is
  in a front run and every input point with \<open>z < 0\<close> is in a back run. The points of
  the front runs are exactly the input points with \<open>z \<ge> 0\<close> in the input's order, and
  likewise for the back runs, so no point is added at a sign change and the point
  counts add up to the input length.
\<close>

theorem splitFrontBack_partition:
  "frontRuns (splitFrontBack points) = filter (\<lambda>r. isFront (hd r)) (zRuns points)
   \<and> backRuns (splitFrontBack points) = filter (\<lambda>r. \<not> isFront (hd r)) (zRuns points)
   \<and> concat (zRuns points) = points
   \<and> alternating (zRuns points)
   \<and> (\<forall>r \<in> set (frontRuns (splitFrontBack points)). r \<noteq> [] \<and> (\<forall>p \<in> set r. v_z p \<ge> Fin 0))
   \<and> (\<forall>r \<in> set (backRuns (splitFrontBack points)). r \<noteq> [] \<and> (\<forall>p \<in> set r. \<not> v_z p \<ge> Fin 0))
   \<and> (\<forall>p \<in> set points. v_z p \<ge> Fin 0 \<longrightarrow> (\<exists>r \<in> set (frontRuns (splitFrontBack points)). p \<in> set r))
   \<and> (\<forall>p \<in> set points. v_z p < Fin 0 \<longrightarrow> (\<exists>r \<in> set (backRuns (splitFrontBack points)). p \<in> set r))
   \<and> concat (frontRuns (splitFrontBack points)) = filter isFront points
   \<and> concat (backRuns (splitFrontBack points)) = filter (\<lambda>p. \<not> isFront p) points
   \<and> length (concat (frontRuns (splitFrontBack points)))
       + length (concat (backRuns (splitFrontBack points))) = length points"
proof (intro conjI ballI impI)
  show "frontRuns (splitFrontBack points) = filter (\<lambda>r. isFront (hd r)) (zRuns points)"
    by (simp add: splitFrontBack_zRuns)
  show "backRuns (splitFrontBack points) = filter (\<lambda>r. \<not> isFront (hd r)) (zRuns points)"
    by (simp add: splitFrontBack_zRuns)
  show "concat (zRuns points) = points" by (rule zRuns_concat)
  show "alternating (zRuns points)" by (rule zRuns_alternating)
next
  fix r assume "r \<in> set (frontRuns (splitFrontBack points))"
  then have r: "r \<in> set (zRuns points)" "isFront (hd r)" by (simp_all add: splitFrontBack_zRuns)
  then show "r \<noteq> []" using zRuns_nonempty by blast
  fix p assume "p \<in> set r"
  with r have "isFront p" using zRuns_homogeneous by blast
  then show "v_z p \<ge> Fin 0" by (simp add: isFront_def)
next
  fix r assume "r \<in> set (backRuns (splitFrontBack points))"
  then have r: "r \<in> set (zRuns points)" "\<not> isFront (hd r)" by (simp_all add: splitFrontBack_zRuns)
  then show "r \<noteq> []" using zRuns_nonempty by blast
  fix p assume "p \<in> set r"
  with r have "\<not> isFront p" using zRuns_homogeneous by blast
  then show "\<not> v_z p \<ge> Fin 0" by (simp add: isFront_def)
next
  fix p assume "p \<in> set points" "v_z p \<ge> Fin 0"
  then have "p \<in> set (filter isFront points)" by (simp add: isFront_def)
  then have "p \<in> set (concat (frontRuns (splitFrontBack points)))"
    by (simp only: splitFrontBack_concat_front)
  then show "\<exists>r \<in> set (frontRuns (splitFrontBack points)). p \<in> set r" by auto
next
  fix p assume "p \<in> set points" "v_z p < Fin 0"
  then have "p \<in> set (filter (\<lambda>p. \<not> isFront p) points)" by (simp add: less_zero_not_front)
  then have "p \<in> set (concat (backRuns (splitFrontBack points)))"
    by (simp only: splitFrontBack_concat_back)
  then show "\<exists>r \<in> set (backRuns (splitFrontBack points)). p \<in> set r" by auto
next
  show "concat (frontRuns (splitFrontBack points)) = filter isFront points"
    by (rule splitFrontBack_concat_front)
  show "concat (backRuns (splitFrontBack points)) = filter (\<lambda>p. \<not> isFront p) points"
    by (rule splitFrontBack_concat_back)
  show "length (concat (frontRuns (splitFrontBack points)))
       + length (concat (backRuns (splitFrontBack points))) = length points"
    by (rule splitFrontBack_count)
qed

theorem splitFrontBack_partition_witness:
  "frontRuns (splitFrontBack samplePath)
     = [[new_Vector3 (Fin 0) (Fin 0) (Fin 0)],
        [new_Vector3 (Fin 0) (Fin 3) (Fin 0), new_Vector3 (Fin 0) (Fin 3) (Fin 4)]]
   \<and> backRuns (splitFrontBack samplePath) = [[new_Vector3 (Fin 2) (Fin 1) (Fin (- 1))]]
   \<and> zRuns samplePath
     = [[new_Vector3 (Fin 0) (Fin 0) (Fin 0)],
        [new_Vector3 (Fin 2) (Fin 1) (Fin (- 1))],
        [new_Vector3 (Fin 0) (Fin 3) (Fin 0), new_Vector3 (Fin 0) (Fin 3) (Fin 4)]]
   \<and> list_all (\<lambda>r. r \<noteq> [] \<and> list_all (\<lambda>p. v_z p \<ge> Fin 0) r)
        (frontRuns (splitFrontBack samplePath))
   \<and> list_all (\<lambda>r. r \<noteq> [] \<and> list_all (\<lambda>p. \<not> v_z p \<ge> Fin 0) r)
        (backRuns (splitFrontBack samplePath))"
proof -
  have z: "zRuns samplePath
     = [[new_Vector3 (Fin 0) (Fin 0) (Fin 0)],
        [new_Vector3 (Fin 2) (Fin 1) (Fin (- 1))],
        [new_Vector3 (Fin 0) (Fin 3) (Fin 0), new_Vector3 (Fin 0) (Fin 3) (Fin 4)]]"
    by (simp add: samplePath_def isFront_def new_Vector3_def)
  show ?thesis
    using splitFrontBack_partition [of samplePath]
    unfolding z by (simp add: isFront_def new_Vector3_def)
qed

section \<open>Clipping to the side band\<close>

lemma clipStep_min_length:
  "\<forall>s\<in>set (fst st). 2 \<le> length s \<Longrightarrow>
   \<forall>s\<in>set (fst (clipStep d st prevP currP)). 2 \<le> length s"
  by (auto simp: clipStep_def Let_def split: prod.splits option.splits if_splits)

lemma clipLoop_min_length:
  "\<forall>s\<in>set (fst st). 2 \<le> length s \<Longrightarrow>
   \<forall>s\<in>set (fst (clipLoop d prevP rest st)). 2 \<le> length s"
proof (induction rest arbitrary: prevP st)
  case Nil
  then show ?case by simp
next
  case (Cons currP rest)
  have "\<forall>s\<in>set (fst (clipStep d st prevP currP)). 2 \<le> length s"
    using Cons.prems by (rule clipStep_min_length)
  then show ?case using Cons.IH by simp
qed

text \<open>
  C6. For every point list and every \<open>d\<close> (in particular every \<open>d \<ge> 0\<close>), each segment
  returned by \<open>clipToSideBand\<close> has at least 2 points: a run is pushed only after the
  test \<open>length \<ge> 2\<close>, and the segment of an edge that spans the band has two points.
\<close>

theorem clipToSideBand_segments_min_length:
  "\<forall>s \<in> set (clipToSideBand points d). 2 \<le> length s"
proof (cases "length points < 2")
  case True
  then show ?thesis by (simp add: clipToSideBand_def)
next
  case False
  obtain segments currentSegment where
    loop: "clipLoop d (hd points) (tl points)
             ([], if isInside d (hd points) then [hd points] else []) = (segments, currentSegment)"
    by (cases "clipLoop d (hd points) (tl points)
             ([], if isInside d (hd points) then [hd points] else [])")
  have "\<forall>s\<in>set (fst (clipLoop d (hd points) (tl points)
             ([], if isInside d (hd points) then [hd points] else []))). 2 \<le> length s"
    by (rule clipLoop_min_length) simp
  with loop have "\<forall>s\<in>set segments. 2 \<le> length s" by simp
  with False loop show ?thesis by (simp add: clipToSideBand_def)
qed

lemma clipToSideBand_clipSample:
  "clipToSideBand clipSample (Fin 2)
     = [[new_Vector3 (Fin (- 2)) (Fin (1 / 3)) (Fin 0), new_Vector3 (Fin 0) (Fin 1) (Fin 0),
         new_Vector3 (Fin 2) (Fin (1 / 3)) (Fin 0)],
        [new_Vector3 (Fin 2) (Fin 0) (Fin (7 / 6)),
         new_Vector3 (Fin (- 2)) (Fin 0) (Fin (35 / 6))]]"
  by (simp add: clipToSideBand_def clipSample_def clipStep_def isInside_def intersectX_def
      lerp3_def lerpVectors_def Math_abs_def EPS_def new_Vector3_def minus_number_def Let_def)

lemma clipToSideBand_nearVerticalSample:
  "clipToSideBand nearVerticalSample (Fin 1) = []"
  by (simp add: clipToSideBand_def nearVerticalSample_def clipStep_def isInside_def
      intersectX_def lerp3_def lerpVectors_def Math_abs_def EPS_def new_Vector3_def
      minus_number_def Let_def)

text \<open>
  On the first sample the two segments have 3 and 2 points; on the second the run of
  one point, closed by a near-vertical edge without a crossing, is dropped.
\<close>

theorem clipToSideBand_segments_min_length_witness:
  "Fin 0 \<le> Fin 2
   \<and> map length (clipToSideBand clipSample (Fin 2)) = [3, 2]
   \<and> list_all (\<lambda>s. 2 \<le> length s) (clipToSideBand clipSample (Fin 2))
   \<and> clipToSideBand nearVerticalSample (Fin 1) = []
   \<and> list_all (\<lambda>s. 2 \<le> length s) (clipToSideBand nearVerticalSample (Fin 1))"
  using clipToSideBand_segments_min_length [of clipSample "Fin 2"]
        clipToSideBand_segments_min_length [of nearVerticalSample "Fin 1"]
  by (simp add: clipToSideBand_clipSample clipToSideBand_nearVerticalSample)

lemma inside_of_bound: "Math_abs x \<le> d \<Longrightarrow> Math_abs x \<le> d + EPS"
  by (cases x; cases d) (simp_all add: Math_abs_def EPS_def)

lemma clipLoop_all_inside:
  "isInside d prevP \<Longrightarrow> \<forall>p\<in>set rest. isInside d p \<Longrightarrow>
   clipLoop d prevP rest (segs, cur) = (segs, cur @ rest)"
  by (induction rest arbitrary: prevP cur) (simp_all add: clipStep_def)

text \<open>
  C5. For every point list with at least 2 points and every \<open>d\<close> with \<open>|x| \<le> d\<close> for
  all its points, \<open>clipToSideBand\<close> returns one segment, the input list itself: no
  point is removed or added (a repeated closing point, if the input has one, is kept).
\<close>

theorem clipToSideBand_wide_band:
  assumes "2 \<le> length points" and "\<forall>p\<in>set points. Math_abs (v_x p) \<le> d"
  shows "clipToSideBand points d = [points]"
proof -
  obtain p0 rest where pts: "points = p0 # rest"
    using assms(1) by (cases points) auto
  with assms(1) have rest: "rest \<noteq> []" "Suc 0 \<le> length rest" by auto
  from assms(2) have ins: "\<forall>p\<in>set points. isInside d p"
    by (simp add: isInside_def inside_of_bound)
  with pts have "clipLoop d p0 rest ([], [p0]) = ([], [p0] @ rest)"
    by (intro clipLoop_all_inside) simp_all
  with pts rest ins show ?thesis
    by (simp add: clipToSideBand_def)
qed

theorem clipToSideBand_wide_band_witness:
  "2 \<le> length clipSample
   \<and> list_all (\<lambda>p. Math_abs (v_x p) \<le> Fin 3) clipSample
   \<and> clipToSideBand clipSample (Fin 3) = [clipSample]"
proof -
  have h1: "2 \<le> length clipSample"
    by (simp add: clipSample_def)
  have h2: "\<forall>p\<in>set clipSample. Math_abs (v_x p) \<le> Fin 3"
    by (simp add: clipSample_def Math_abs_def new_Vector3_def)
  show ?thesis
    using h1 h2 clipToSideBand_wide_band [OF h1 h2] by (simp add: list_all_iff)
qed

section \<open>The unit circle in the plane z = 0\<close>

lemma sin_three_half_pi: "sin (3 * pi / 2) = - 1"
  using sin_3over2_pi by (simp add: field_simps)

lemma cos_three_half_pi: "cos (3 * pi / 2) = 0"
  using cos_3over2_pi by (simp add: field_simps)

lemma basisFromNormal_Z:
  "basisFromNormal (Vector3_normalize (new_Vector3 (Fin 0) (Fin 0) (Fin 1)))
     = (new_Vector3 (Fin 0) (Fin 1) (Fin 0), new_Vector3 (Fin (- 1)) (Fin 0) (Fin 0))"
  by (simp add: basisFromNormal_def Vector3_normalize_def divideScalar_def multiplyScalar_def
      or_else_def Vector3_length_def crossVectors_def new_Vector3_def Math_abs_def
      minus_number_def Let_def)

lemma upt_Suc_4: "[0 ..< Suc 4] = [0, 1, 2, 3, 4]"
  by (simp add: upt_rec)

text \<open>
  C7. For the normal \<open>(0, 0, 1)\<close> the helper axis is X and the basis is
  \<open>u = (0, 1, 0)\<close>, \<open>v = (-1, 0, 0)\<close>; \<open>circleOnPlane\<close> with the origin as center,
  radius 1 and 4 segments returns the five points \<open>(0,1,0)\<close>, \<open>(-1,0,0)\<close>, \<open>(0,-1,0)\<close>,
  \<open>(1,0,0)\<close>, \<open>(0,1,0)\<close>, the point \<open>i\<close> at the angle \<open>(i / 4) 2\<pi>\<close>. In exact arithmetic
  the equality is exact.
\<close>

theorem circleOnPlane_unit_Z:
  "basisFromNormal (Vector3_normalize (new_Vector3 (Fin 0) (Fin 0) (Fin 1)))
     = (new_Vector3 (Fin 0) (Fin 1) (Fin 0), new_Vector3 (Fin (- 1)) (Fin 0) (Fin 0))
   \<and> circleOnPlane (new_Vector3 (Fin 0) (Fin 0) (Fin 0)) (new_Vector3 (Fin 0) (Fin 0) (Fin 1))
        (Fin 1) 4
     = [new_Vector3 (Fin 0) (Fin 1) (Fin 0), new_Vector3 (Fin (- 1)) (Fin 0) (Fin 0),
        new_Vector3 (Fin 0) (Fin (- 1)) (Fin 0), new_Vector3 (Fin 1) (Fin 0) (Fin 0),
        new_Vector3 (Fin 0) (Fin 1) (Fin 0)]"
  unfolding circleOnPlane_def basisFromNormal_Z upt_Suc_4
  by (simp add: circlePoint_def addScaledVector_def Vector3_add_def new_Vector3_def Math_PI_def
      cos_three_half_pi sin_three_half_pi Let_def)

section \<open>What the transform and the projection leave alone\<close>

lemma transformOne_frame:
  assumes "o_position l < length st" and "transformOne st l q pan = (l', st')"
  shows "take (length st) st' = st" and "length st \<le> length st'"
    and "o_position l' < length st'" and "length st \<le> o_position l'"
    and "deref st' l' = (deref st l)\<lparr>position :=
           Vector3_add (applyQuaternion (position (deref st l)) q)
             (new_Vector3 (pan_x pan) (pan_y pan) (Fin 0))\<rparr>"
  using assms
  by (auto simp: transformOne_def store_clone_def store_new_def store_applyQuaternion_def
      store_add_def deref_def Let_def nth_append)

lemma deref_take:
  "take n st' = st \<Longrightarrow> o_position l < length st \<Longrightarrow> deref st' l = deref st l"
  by (auto simp: deref_def)

lemma transformLandmarksS_frame:
  "\<forall>l\<in>set ls. o_position l < length st \<Longrightarrow>
   transformLandmarksS st ls q pan = (ls', st') \<Longrightarrow>
   take (length st) st' = st \<and> length st \<le> length st'
   \<and> (\<forall>l\<in>set ls'. o_position l < length st' \<and> length st \<le> o_position l)
   \<and> map (deref st') ls' = transformLandmarks (map (deref st) ls) q pan"
proof (induction ls arbitrary: st ls' st')
  case Nil
  then show ?case by (simp add: transformLandmarks_def)
next
  case (Cons l ls)
  obtain l1 st1 where one: "transformOne st l q pan = (l1, st1)"
    by (cases "transformOne st l q pan")
  obtain ls2 st2 where two: "transformLandmarksS st1 ls q pan = (ls2, st2)"
    by (cases "transformLandmarksS st1 ls q pan")
  from Cons.prems(2) one two have res: "ls' = l1 # ls2" "st' = st2" by simp_all
  from Cons.prems(1) have pl: "o_position l < length st" by simp
  note f1 = transformOne_frame [OF pl one]
  have valid: "\<forall>l\<in>set ls. o_position l < length st1"
    using Cons.prems(1) f1(2) by auto
  from Cons.IH [OF valid two]
  have ih: "take (length st1) st2 = st1" "length st1 \<le> length st2"
    "\<forall>l\<in>set ls2. o_position l < length st2 \<and> length st1 \<le> o_position l"
    "map (deref st2) ls2 = transformLandmarks (map (deref st1) ls) q pan"
    by simp_all
  have t: "take (length st) st2 = st"
  proof -
    have "take (length st) st2 = take (length st) (take (length st1) st2)"
      using f1(2) by (simp add: min_def)
    then show ?thesis using ih(1) f1(1) by simp
  qed
  have same: "map (deref st1) ls = map (deref st) ls"
    using Cons.prems(1) f1(1) by (auto intro: deref_take)
  have head: "deref st2 l1 = deref st1 l1"
    using ih(1) f1(3) by (rule deref_take)
  show ?case
    unfolding res
    using t ih f1 same head by (auto simp: transformLandmarks_def)
qed

lemma projectLandmarksS_pure:
  "projectLandmarksS st ls w h = (projectLandmarks (map (deref st) ls) w h, st)"
  by (simp add: projectLandmarksS_def projectLandmarks_def deref_def Let_def)


lemma transformLandmarks_keeps_fields:
  "map (\<lambda>(out, inp). out\<lparr>position := position inp\<rparr>)
     (zip (transformLandmarks landmarks rotation pan) landmarks) = landmarks"
  by (induction landmarks) (simp_all add: transformLandmarks_def)

text \<open>
  C10. \<open>transformLandmarks\<close> and \<open>projectLandmarks\<close> return a list of the length and
  in the order of their input; every output carries the name of its input, and for
  \<open>transformLandmarks\<close> the color too: an output with the input's position put back is
  the input. In the store model, where the landmark objects point to valid addresses,
  \<open>transformLandmarks\<close> leaves every vector that existed before the call as it was, so
  the input landmarks read the same afterwards; the outputs point to fresh vectors, whose
  values are those of the functional model. \<open>projectLandmarks\<close> writes nothing.
\<close>

theorem transform_project_frame:
  "length (transformLandmarks landmarks rotation pan) = length landmarks
   \<and> map name (transformLandmarks landmarks rotation pan) = map name landmarks
   \<and> map color (transformLandmarks landmarks rotation pan) = map color landmarks
   \<and> map (\<lambda>(out, inp). out\<lparr>position := position inp\<rparr>)
        (zip (transformLandmarks landmarks rotation pan) landmarks) = landmarks
   \<and> length (projectLandmarks landmarks w h) = length landmarks
   \<and> map pl_name (projectLandmarks landmarks w h) = map name landmarks
   \<and> ((\<forall>l\<in>set objs. o_position l < length st) \<longrightarrow>
        (case transformLandmarksS st objs rotation pan of
           (objs', st') \<Rightarrow>
             take (length st) st' = st
             \<and> map (deref st') objs = map (deref st) objs
             \<and> (\<forall>l\<in>set objs'. length st \<le> o_position l \<and> o_position l < length st')
             \<and> map (deref st') objs' = transformLandmarks (map (deref st) objs) rotation pan))
   \<and> projectLandmarksS st objs w h = (projectLandmarks (map (deref st) objs) w h, st)"
proof (intro conjI impI)
  show "length (transformLandmarks landmarks rotation pan) = length landmarks"
    by (simp add: transformLandmarks_def)
  show "map name (transformLandmarks landmarks rotation pan) = map name landmarks"
    by (simp add: transformLandmarks_def)
  show "map color (transformLandmarks landmarks rotation pan) = map color landmarks"
    by (simp add: transformLandmarks_def)
  show "map (\<lambda>(out, inp). out\<lparr>position := position inp\<rparr>)
          (zip (transformLandmarks landmarks rotation pan) landmarks) = landmarks"
    by (rule transformLandmarks_keeps_fields)
  show "length (projectLandmarks landmarks w h) = length landmarks"
    by (simp add: projectLandmarks_def)
  show "map pl_name (projectLandmarks landmarks w h) = map name landmarks"
    by (simp add: projectLandmarks_def Let_def)
  show "projectLandmarksS st objs w h = (projectLandmarks (map (deref st) objs) w h, st)"
    by (rule projectLandmarksS_pure)
next
  assume valid: "\<forall>l\<in>set objs. o_position l < length st"
  obtain objs' st' where run: "transformLandmarksS st objs rotation pan = (objs', st')"
    by (cases "transformLandmarksS st objs rotation pan")
  note fr = transformLandmarksS_frame [OF valid run]
  from fr have tk: "take (length st) st' = st" by simp
  have same: "map (deref st') objs = map (deref st) objs"
    using valid tk by (auto intro: deref_take)
  show "case transformLandmarksS st objs rotation pan of
          (objs', st') \<Rightarrow>
            take (length st) st' = st
            \<and> map (deref st') objs = map (deref st) objs
            \<and> (\<forall>l\<in>set objs'. length st \<le> o_position l \<and> o_position l < length st')
            \<and> map (deref st') objs' = transformLandmarks (map (deref st) objs) rotation pan"
    using fr same by (simp add: run)
qed

theorem transform_project_frame_witness:
  "list_all (\<lambda>l. o_position l < length sampleStore) sampleObjs
   \<and> (case transformLandmarksS sampleStore sampleObjs new_Quaternion noPan of
        (objs', st') \<Rightarrow>
          take (length sampleStore) st' = sampleStore
          \<and> map (deref st') sampleObjs = map (deref sampleStore) sampleObjs
          \<and> (\<forall>l\<in>set objs'. length sampleStore \<le> o_position l \<and> o_position l < length st')
          \<and> map (deref st') objs'
            = transformLandmarks (map (deref sampleStore) sampleObjs) new_Quaternion noPan)"
proof -
  have valid: "\<forall>l\<in>set sampleObjs. o_position l < length sampleStore"
    by (simp add: sampleObjs_def sampleStore_def)
  show ?thesis
    using valid
      transform_project_frame [of "[]" new_Quaternion noPan 0 0 sampleObjs sampleStore]
    by (simp add: list_all_iff)
qed

end
